theory Spec2Isabelle
  imports Main
begin

section \<open>Values of a request body\<close>

text \<open>
  The handlers of \<^verbatim>\<open>server.js\<close> read \<^verbatim>\<open>name\<close>, \<^verbatim>\<open>phone\<close>, \<^verbatim>\<open>catalogCode\<close> and
  \<^verbatim>\<open>otp\<close> from the parsed request body, so each is an arbitrary JavaScript value:
  \<open>JUndefined\<close> is a field the body does not have, \<open>JObj\<close> an object or an array
  (given by its JSON text). A number is kept as an integer: the handlers only test it
  for being zero. A string is a \<open>char list\<close>; the characters the handlers look at are
  the ASCII digits, which are single units in every encoding of the text.
\<close>

datatype jsval =
    JUndefined
  | JNull
  | JBool bool
  | JNum int
  | JStr string
  | JObj string

text \<open>JavaScript's truthiness: \<^verbatim>\<open>!v\<close> is \<open>\<not> truthy v\<close>.\<close>

fun truthy :: "jsval \<Rightarrow> bool" where
  "truthy JUndefined = False"
| "truthy JNull = False"
| "truthy (JBool b) = b"
| "truthy (JNum n) = (n \<noteq> 0)"
| "truthy (JStr s) = (s \<noteq> [])"
| "truthy (JObj j) = True"

section \<open>Phone normalisation\<close>

text \<open>The character class \<^verbatim>\<open>\d\<close> of a regular expression without the unicode flag
  is \<^verbatim>\<open>[0-9]\<close>; \<^verbatim>\<open>\D\<close> is its complement.\<close>

definition isDigit :: "char \<Rightarrow> bool" where
  "isDigit c = (c \<in> set ''0123456789'')"

definition nonDigit :: "char \<Rightarrow> bool" where
  "nonDigit c = (\<not> isDigit c)"

text \<open>\<^verbatim>\<open>s.replace(/C/g, r)\<close> for a one-character class \<open>C\<close>: every character of
  \<open>s\<close> that is in the class is replaced by \<open>r\<close>, from left to right.\<close>

fun replace_g :: "(char \<Rightarrow> bool) \<Rightarrow> string \<Rightarrow> string \<Rightarrow> string" where
  "replace_g C r [] = []"
| "replace_g C r (c # cs) = (if C c then r @ replace_g C r cs else c # replace_g C r cs)"

text \<open>The normal form in the words of the specification: a \<^verbatim>\<open>+\<close> followed by the
  digits of the input, in order.\<close>

definition plus_digits :: "string \<Rightarrow> string" where
  "plus_digits p = CHR ''+'' # filter isDigit p"

section \<open>The state of the process and its collaborators\<close>

text \<open>An entry of the in-memory object \<^verbatim>\<open>leads\<close> (lines 42 and 57 of
  \<^verbatim>\<open>server.js\<close>). The object is read and written only under keys that start with
  \<^verbatim>\<open>+\<close>, which no inherited property has, so it is a finite map from keys to
  entries; an entry is an object and hence truthy.\<close>

record lead =
  name :: jsval
  phone :: string
  verified :: bool

text \<open>A row of the table \<^verbatim>\<open>leads\<close> of \<^verbatim>\<open>db.js\<close>. The values are kept as they were
  bound to the statement.\<close>

record row =
  row_id :: nat
  row_name :: jsval
  row_phone :: string
  catalog_code :: jsval
  created_at :: string

record db_state =
  leads_table :: "row list"
  sqlite_sequence :: nat

text \<open>The calls a handler makes to the database and to the verification provider, in
  the order in which it issues them.\<close>

datatype event =
    DbRun jsval string jsval
  | DbAll
  | VerificationsCreate string string
  | VerificationChecksCreate string jsval

record state =
  leads :: "string \<rightharpoonup> lead"
  db :: db_state
  calls :: "event list"
  console :: "string list"

text \<open>
  What the collaborators answer during one request: the provider's two operations
  (\<open>Inl\<close> is a rejected promise with its message, \<open>Inr\<close> the \<^verbatim>\<open>sid\<close> or the
  \<^verbatim>\<open>status\<close> of the resolved one), the error the database driver hands to the
  callback of \<^verbatim>\<open>db.run\<close> and of \<^verbatim>\<open>db.all\<close> (\<open>None\<close> when the statement ran), an
  exception of the spreadsheet library inside the \<^verbatim>\<open>try\<close> block of the export, and
  the clock.
\<close>

record env =
  verifications_create :: "string \<Rightarrow> string \<Rightarrow> string + string"
  verificationChecks_create :: "string \<Rightarrow> jsval \<Rightarrow> string + string"
  db_run_error :: "string option"
  db_all_error :: "string option"
  xlsx_error :: "string option"
  current_timestamp :: string
  iso_date :: string

section \<open>The lead store\<close>

text \<open>
  \<^verbatim>\<open>INSERT INTO leads (name, phone, catalog_code) VALUES (?, ?, ?)\<close> on the table of
  \<^verbatim>\<open>db.js\<close>: \<^verbatim>\<open>id\<close> is \<^verbatim>\<open>AUTOINCREMENT\<close>, \<^verbatim>\<open>name\<close> is \<^verbatim>\<open>NOT NULL\<close>,
  \<^verbatim>\<open>created_at\<close> defaults to the current timestamp, and no column is unique.
  The result is the error given to the callback and the new database.
\<close>

definition db_run_insert :: "env \<Rightarrow> jsval \<Rightarrow> string \<Rightarrow> jsval \<Rightarrow> db_state \<Rightarrow> string option \<times> db_state" where
  "db_run_insert e nm ph cc d =
     (case db_run_error e of
        Some m \<Rightarrow> (Some m, d)
      | None \<Rightarrow>
          if nm = JNull \<or> nm = JUndefined
          then (Some ''SQLITE_CONSTRAINT: NOT NULL constraint failed: leads.name'', d)
          else (None,
                d\<lparr>leads_table := leads_table d @
                     [\<lparr>row_id = Suc (sqlite_sequence d), row_name = nm, row_phone = ph,
                       catalog_code = cc, created_at = current_timestamp e\<rparr>],
                  sqlite_sequence := Suc (sqlite_sequence d)\<rparr>))"

text \<open>\<^verbatim>\<open>SELECT id, name, phone, catalog_code, created_at FROM leads\<close>.\<close>

definition db_all :: "env \<Rightarrow> db_state \<Rightarrow> string + row list" where
  "db_all e d = (case db_all_error e of Some m \<Rightarrow> Inl m | None \<Rightarrow> Inr (leads_table d))"

section \<open>Responses\<close>

record worksheet =
  header :: "string list"
  body :: "jsval list list"
  cols :: "nat list"

type_synonym workbook = "(string \<times> worksheet) list"

text \<open>A response is a JSON body \<^verbatim>\<open>{success, message?}\<close> with its status, or the
  spreadsheet sent as an attachment with its file name. A handler whose exception
  nothing catches sends no response.\<close>

datatype response =
    Json nat bool "string option"
  | Attachment string workbook

datatype outcome =
    Sent response
  | Uncaught string

section \<open>The handlers\<close>

text \<open>
  \<^verbatim>\<open>POST /api/send-otp\<close> (lines 45 to 88). The validation and the normalisation stand
  before the \<^verbatim>\<open>try\<close>; \<^verbatim>\<open>phone.replace\<close> of a truthy value that is not a string is
  a \<^verbatim>\<open>TypeError\<close> there. \<^verbatim>\<open>db.run\<close> hands its error to the callback, which only
  writes to the console; the statement and its callback are run where the handler
  issues the statement, before the provider is called.
\<close>

definition send_otp :: "env \<Rightarrow> jsval \<Rightarrow> jsval \<Rightarrow> jsval \<Rightarrow> state \<Rightarrow> outcome \<times> state" where
  "send_otp e nm ph catalogCode s =
     (if \<not> truthy nm \<or> \<not> truthy ph
      then (Sent (Json 400 False (Some ''Name and phone are required'')), s)
      else
        case ph of
          JStr p \<Rightarrow>
            let normalizedPhone = CHR ''+'' # replace_g nonDigit [] p;
                s1 = s\<lparr>leads := (leads s)(normalizedPhone \<mapsto>
                        \<lparr>name = nm, phone = normalizedPhone, verified = False\<rparr>)\<rparr>;
                cc = (if truthy catalogCode then catalogCode else JNull);
                (err, d) = db_run_insert e nm normalizedPhone cc (db s1);
                s2 = s1\<lparr>db := d,
                        calls := calls s1 @ [DbRun nm normalizedPhone cc],
                        console := console s1 @
                          [case err of
                             Some m \<Rightarrow> ''DB insert lead error: '' @ m
                           | None \<Rightarrow> ''Lead stored in DB for '' @ normalizedPhone]\<rparr>;
                s3 = s2\<lparr>calls := calls s2 @ [VerificationsCreate normalizedPhone ''sms'']\<rparr>
            in
              (case verifications_create e normalizedPhone ''sms'' of
                 Inr sid \<Rightarrow>
                   (Sent (Json 200 True None),
                    s3\<lparr>console := console s3 @ [''Twilio OTP sent: '' @ sid]\<rparr>)
               | Inl m \<Rightarrow>
                   (Sent (Json 500 False (Some ''Failed to send OTP'')),
                    s3\<lparr>console := console s3 @ [''Send OTP error: '' @ m]\<rparr>))
        | _ \<Rightarrow> (Uncaught ''TypeError: phone.replace is not a function'', s))"

text \<open>\<^verbatim>\<open>POST /api/verify-otp\<close> (lines 91 to 122).\<close>

definition verify_otp :: "env \<Rightarrow> jsval \<Rightarrow> jsval \<Rightarrow> state \<Rightarrow> outcome \<times> state" where
  "verify_otp e ph otp s =
     (if \<not> truthy ph \<or> \<not> truthy otp
      then (Sent (Json 400 False (Some ''Phone and OTP are required'')), s)
      else
        case ph of
          JStr p \<Rightarrow>
            let normalizedPhone = CHR ''+'' # replace_g nonDigit [] p;
                s1 = s\<lparr>calls := calls s @ [VerificationChecksCreate normalizedPhone otp]\<rparr>
            in
              (case verificationChecks_create e normalizedPhone otp of
                 Inr status \<Rightarrow>
                   let s2 = s1\<lparr>console := console s1 @ [''Verification status: '' @ status]\<rparr>
                   in
                     if status = ''approved''
                     then
                       (Sent (Json 200 True None),
                        case leads s2 normalizedPhone of
                          Some l \<Rightarrow> s2\<lparr>leads := (leads s2)(normalizedPhone \<mapsto> l\<lparr>verified := True\<rparr>)\<rparr>
                        | None \<Rightarrow> s2)
                     else (Sent (Json 400 False (Some ''Invalid OTP'')), s2)
               | Inl m \<Rightarrow>
                   (Sent (Json 500 False (Some ''OTP verification failed'')),
                    s1\<lparr>console := console s1 @ [''Verify OTP error: '' @ m]\<rparr>))
        | _ \<Rightarrow> (Uncaught ''TypeError: phone.replace is not a function'', s))"

text \<open>
  Modelled from the spec: the spreadsheet library (\<^verbatim>\<open>XLSX.utils.json_to_sheet\<close>) is
  not part of the repository. The worksheet has the columns of the records it is
  given, here those of the \<^verbatim>\<open>SELECT\<close>, as its header, and one row for each record.
\<close>

definition row_cells :: "row \<Rightarrow> jsval list" where
  "row_cells r =
     [JNum (int (row_id r)), row_name r, JStr (row_phone r), catalog_code r, JStr (created_at r)]"

definition json_to_sheet :: "row list \<Rightarrow> worksheet" where
  "json_to_sheet rs =
     \<lparr>header = [''id'', ''name'', ''phone'', ''catalog_code'', ''created_at''],
      body = map row_cells rs,
      cols = []\<rparr>"

text \<open>\<^verbatim>\<open>GET /api/export-leads\<close> (lines 128 to 172).\<close>

definition export_leads :: "env \<Rightarrow> state \<Rightarrow> outcome \<times> state" where
  "export_leads e s =
     (let s1 = s\<lparr>calls := calls s @ [DbAll]\<rparr> in
      case db_all e (db s) of
        Inl m \<Rightarrow>
          (Sent (Json 500 False (Some ''Error fetching leads'')),
           s1\<lparr>console := console s1 @ [''DB query error: '' @ m]\<rparr>)
      | Inr rs \<Rightarrow>
          if rs = [] then (Sent (Json 400 False (Some ''No leads to export'')), s1)
          else
            (case xlsx_error e of
               Some m \<Rightarrow>
                 (Sent (Json 500 False (Some ''Error exporting leads'')),
                  s1\<lparr>console := console s1 @ [''Export error: '' @ m]\<rparr>)
             | None \<Rightarrow>
                 let worksheet = (json_to_sheet rs)\<lparr>cols := [5, 20, 15, 20, 20]\<rparr>;
                     workbook = [] @ [(''Leads'', worksheet)];
                     filename = ''leads_'' @ iso_date e @ ''.xlsx''
                 in (Sent (Attachment filename workbook), s1)))"

section \<open>Sequences of requests\<close>

datatype request =
    SendOtp env jsval jsval jsval
  | VerifyOtp env jsval jsval
  | ExportLeads env

fun handle :: "request \<Rightarrow> state \<Rightarrow> outcome \<times> state" where
  "handle (SendOtp e nm ph cc) s = send_otp e nm ph cc s"
| "handle (VerifyOtp e ph otp) s = verify_otp e ph otp s"
| "handle (ExportLeads e) s = export_leads e s"

fun run :: "state \<Rightarrow> request list \<Rightarrow> state" where
  "run s [] = s"
| "run s (r # rs) = run (snd (handle r s)) rs"

text \<open>The process starts with an empty object \<^verbatim>\<open>leads\<close>.\<close>

definition init :: "db_state \<Rightarrow> state" where
  "init d = \<lparr>leads = Map.empty, db = d, calls = [], console = []\<rparr>"

text \<open>The states of a session in the words of the specification.\<close>

datatype session_state = NONE | PENDING | VERIFIED

definition session :: "state \<Rightarrow> string \<Rightarrow> session_state" where
  "session s k =
     (case leads s k of
        None \<Rightarrow> NONE
      | Some l \<Rightarrow> if verified l then VERIFIED else PENDING)"

text \<open>A request that is a submission for the session key \<open>k\<close>: it passes the
  validation, and its phone has the digits of \<open>k\<close>.\<close>

fun submits :: "string \<Rightarrow> request \<Rightarrow> bool" where
  "submits k (SendOtp e nm (JStr p) cc) = (truthy nm \<and> p \<noteq> [] \<and> plus_digits p = k)"
| "submits k r = False"

text \<open>A stored phone in normal form: a \<^verbatim>\<open>+\<close>, then digits only.\<close>

definition normal_form :: "string \<Rightarrow> bool" where
  "normal_form k = (case k of [] \<Rightarrow> False | c # ds \<Rightarrow> c = CHR ''+'' \<and> list_all isDigit ds)"

definition stored_ok :: "row \<Rightarrow> bool" where
  "stored_ok r = (truthy (row_name r) \<and> normal_form (row_phone r))"

section \<open>Sample collaborators and states\<close>

text \<open>A provider that accepts every number and approves the code \<^verbatim>\<open>123456\<close>, with a
  working database and encoder.\<close>

definition provider_up :: env where
  "provider_up =
     \<lparr>verifications_create = (\<lambda>to channel. Inr ''VE01''),
      verificationChecks_create =
        (\<lambda>to code. Inr (if code = JStr ''123456'' then ''approved'' else ''pending'')),
      db_run_error = None, db_all_error = None, xlsx_error = None,
      current_timestamp = ''2024-05-01 10:00:00'', iso_date = ''2024-05-01''\<rparr>"

definition provider_down :: env where
  "provider_down =
     provider_up\<lparr>verifications_create := (\<lambda>to channel. Inl ''connect ETIMEDOUT'')\<rparr>"

definition disk_full :: env where
  "disk_full = provider_up\<lparr>db_run_error := Some ''SQLITE_FULL: database or disk is full''\<rparr>"

definition read_fails :: env where
  "read_fails = provider_up\<lparr>db_all_error := Some ''SQLITE_IOERR: disk I/O error''\<rparr>"

definition encoder_fails :: env where
  "encoder_fails =
     provider_up\<lparr>xlsx_error := Some ''serialization failure''\<rparr>"

definition empty_db :: db_state where
  "empty_db = \<lparr>leads_table = [], sqlite_sequence = 0\<rparr>"

definition alice :: request where
  "alice = SendOtp provider_up (JStr ''Alice'') (JStr ''+1 555 111 2222'') JUndefined"

definition alice_code :: request where
  "alice_code = VerifyOtp provider_up (JStr ''+1 (555) 111-2222'') (JStr ''123456'')"

section \<open>Normalisation\<close>

lemma replace_nonDigit_filter: "replace_g nonDigit [] p = filter isDigit p"
  by (induction p) (simp_all add: nonDigit_def)

section \<open>What each handler does to the state\<close>

text \<open>The result of a handler on a request that passes its validation, one
  component at a time, and its result on every other request.\<close>

lemmas handler_defs = send_otp_def verify_otp_def Let_def replace_nonDigit_filter plus_digits_def

lemma fst_send_otp:
  assumes "truthy nm" and "p \<noteq> []"
  shows "fst (send_otp e nm (JStr p) cc s) =
           (case verifications_create e (plus_digits p) ''sms'' of
              Inr sid \<Rightarrow> Sent (Json 200 True None)
            | Inl m \<Rightarrow> Sent (Json 500 False (Some ''Failed to send OTP'')))"
  using assms by (simp add: handler_defs split: sum.splits prod.splits)

lemma leads_send_otp:
  assumes "truthy nm" and "p \<noteq> []"
  shows "leads (snd (send_otp e nm (JStr p) cc s)) =
           (leads s)(plus_digits p \<mapsto> \<lparr>name = nm, phone = plus_digits p, verified = False\<rparr>)"
  using assms by (simp add: handler_defs split: sum.splits prod.splits)

lemma calls_send_otp:
  assumes "truthy nm" and "p \<noteq> []"
  shows "calls (snd (send_otp e nm (JStr p) cc s)) =
           calls s @ [DbRun nm (plus_digits p) (if truthy cc then cc else JNull),
                      VerificationsCreate (plus_digits p) ''sms'']"
  using assms by (simp add: handler_defs split: sum.splits prod.splits)

lemma db_send_otp:
  assumes "truthy nm" and "p \<noteq> []"
  shows "db (snd (send_otp e nm (JStr p) cc s)) =
           snd (db_run_insert e nm (plus_digits p) (if truthy cc then cc else JNull) (db s))"
  using assms by (simp add: handler_defs split: sum.splits prod.splits)

lemma send_otp_rejected:
  assumes "\<not> (truthy nm \<and> (\<exists>p. ph = JStr p \<and> p \<noteq> []))"
  shows "snd (send_otp e nm ph cc s) = s"
  using assms by (cases ph) (auto simp: send_otp_def)

lemma fst_verify_otp:
  assumes "p \<noteq> []" and "truthy otp"
  shows "fst (verify_otp e (JStr p) otp s) =
           (case verificationChecks_create e (plus_digits p) otp of
              Inr st \<Rightarrow> if st = ''approved'' then Sent (Json 200 True None)
                        else Sent (Json 400 False (Some ''Invalid OTP''))
            | Inl m \<Rightarrow> Sent (Json 500 False (Some ''OTP verification failed'')))"
  using assms by (simp add: handler_defs split: sum.splits)

lemma leads_verify_otp:
  assumes "p \<noteq> []" and "truthy otp"
  shows "leads (snd (verify_otp e (JStr p) otp s)) =
           (case leads s (plus_digits p) of
              Some l \<Rightarrow>
                if verificationChecks_create e (plus_digits p) otp = Inr ''approved''
                then (leads s)(plus_digits p \<mapsto> l\<lparr>verified := True\<rparr>) else leads s
            | None \<Rightarrow> leads s)"
  using assms by (simp add: handler_defs split: sum.splits option.splits)

lemma calls_verify_otp:
  assumes "p \<noteq> []" and "truthy otp"
  shows "calls (snd (verify_otp e (JStr p) otp s)) =
           calls s @ [VerificationChecksCreate (plus_digits p) otp]"
  using assms by (simp add: handler_defs split: sum.splits option.splits)

lemma db_verify_otp: "db (snd (verify_otp e ph otp s)) = db s"
  by (cases ph) (simp_all add: verify_otp_def Let_def split: sum.splits option.splits)

lemma verify_otp_rejected:
  assumes "\<not> (truthy otp \<and> (\<exists>p. ph = JStr p \<and> p \<noteq> []))"
  shows "snd (verify_otp e ph otp s) = s"
  using assms by (cases ph) (auto simp: verify_otp_def)

lemma db_export_leads: "db (snd (export_leads e s)) = db s"
  by (simp add: export_leads_def Let_def split: sum.splits option.splits)

lemma leads_export_leads: "leads (snd (export_leads e s)) = leads s"
  by (simp add: export_leads_def Let_def split: sum.splits option.splits)


subsection \<open>Sessions along a run\<close>

text \<open>A request changes the session of \<open>k\<close> only by a submission for \<open>k\<close>, which
  stores a fresh entry, or by an approved verification, which sets the flag of the
  entry that is there.\<close>

lemma leads_handle_submits:
  assumes "submits k r"
  shows "leads (snd (handle r s)) k = Some \<lparr>name = (case r of SendOtp e nm ph cc \<Rightarrow> nm | _ \<Rightarrow> JUndefined), phone = k, verified = False\<rparr>"
  using assms by (cases "(k, r)" rule: submits.cases) (auto simp: leads_send_otp)

lemma leads_handle_other:
  assumes "\<not> submits k r"
  shows "leads (snd (handle r s)) k = leads s k \<or>
         (\<exists>l. leads s k = Some l \<and> leads (snd (handle r s)) k = Some (l\<lparr>verified := True\<rparr>))"
proof (cases r)
  case (SendOtp e nm ph cc)
  show ?thesis
  proof (cases "truthy nm \<and> (\<exists>p. ph = JStr p \<and> p \<noteq> [])")
    case True
    then obtain p where p: "ph = JStr p" "p \<noteq> []" "truthy nm" by blast
    with assms SendOtp have "plus_digits p \<noteq> k" by simp
    with p SendOtp show ?thesis by (simp add: leads_send_otp)
  next
    case False
    with SendOtp show ?thesis by (simp add: send_otp_rejected)
  qed
next
  case (VerifyOtp e ph otp)
  show ?thesis
  proof (cases "truthy otp \<and> (\<exists>p. ph = JStr p \<and> p \<noteq> [])")
    case True
    then obtain p where p: "ph = JStr p" "p \<noteq> []" "truthy otp" by blast
    with VerifyOtp show ?thesis by (auto simp: leads_verify_otp split: option.splits)
  next
    case False
    with VerifyOtp show ?thesis by (simp add: verify_otp_rejected)
  qed
next
  case (ExportLeads e)
  then show ?thesis by (simp add: leads_export_leads)
qed

lemma session_handle_not_NONE:
  assumes "session s k \<noteq> NONE"
  shows "session (snd (handle r s)) k \<noteq> NONE"
proof (cases "submits k r")
  case True
  then show ?thesis by (simp add: session_def leads_handle_submits)
next
  case False
  from leads_handle_other [OF this, of s] assms show ?thesis
    by (auto simp: session_def split: option.splits)
qed

lemma session_handle_VERIFIED:
  assumes "session s k = VERIFIED" and "\<not> submits k r"
  shows "session (snd (handle r s)) k = VERIFIED"
  using leads_handle_other [OF assms(2), of s] assms(1)
  by (auto simp: session_def split: option.splits if_splits)

lemma leads_handle_None:
  assumes "leads s k = None" and "\<not> submits k r"
  shows "leads (snd (handle r s)) k = None"
  using leads_handle_other [OF assms(2), of s] assms(1) by auto

lemma session_run_not_NONE:
  "session s k \<noteq> NONE \<Longrightarrow> session (run s rs) k \<noteq> NONE"
  by (induction rs arbitrary: s) (simp_all add: session_handle_not_NONE)

lemma session_run_VERIFIED:
  "session s k = VERIFIED \<Longrightarrow> \<forall>r\<in>set rs. \<not> submits k r \<Longrightarrow> session (run s rs) k = VERIFIED"
  by (induction rs arbitrary: s) (simp_all add: session_handle_VERIFIED)

lemma leads_run_None:
  "leads s k = None \<Longrightarrow> \<forall>r\<in>set rs. \<not> submits k r \<Longrightarrow> leads (run s rs) k = None"
  by (induction rs arbitrary: s) (simp_all add: leads_handle_None)

subsection \<open>The table along a run\<close>

lemma normal_form_plus_digits: "normal_form (plus_digits p)"
  by (simp add: normal_form_def plus_digits_def list_all_iff)

text \<open>Every request leaves the rows of the table in place and adds at most rows that
  are \<open>stored_ok\<close> behind them.\<close>

lemma table_handle:
  "\<exists>new. leads_table (db (snd (handle r s))) = leads_table (db s) @ new \<and> list_all stored_ok new"
proof (cases r)
  case (SendOtp e nm ph cc)
  show ?thesis
  proof (cases "truthy nm \<and> (\<exists>p. ph = JStr p \<and> p \<noteq> [])")
    case True
    then obtain p where p: "ph = JStr p" "p \<noteq> []" "truthy nm" by blast
    with SendOtp show ?thesis
      by (auto simp: db_send_otp db_run_insert_def stored_ok_def normal_form_plus_digits
               split: option.splits)
  next
    case False
    with SendOtp show ?thesis by (simp add: send_otp_rejected)
  qed
next
  case (VerifyOtp e ph otp)
  then show ?thesis by (simp add: db_verify_otp)
next
  case (ExportLeads e)
  then show ?thesis by (simp add: db_export_leads)
qed

lemma table_run:
  "\<exists>new. leads_table (db (run s rs)) = leads_table (db s) @ new \<and> list_all stored_ok new"
proof (induction rs arbitrary: s)
  case Nil
  show ?case by simp
next
  case (Cons r rs)
  obtain n1 where n1: "leads_table (db (snd (handle r s))) = leads_table (db s) @ n1" "list_all stored_ok n1"
    using table_handle by blast
  obtain n2 where n2: "leads_table (db (run (snd (handle r s)) rs)) = leads_table (db (snd (handle r s))) @ n2"
      "list_all stored_ok n2"
    using Cons.IH by blast
  from n1 n2 have "leads_table (db (run s (r # rs))) = leads_table (db s) @ (n1 @ n2) \<and> list_all stored_ok (n1 @ n2)"
    by simp
  then show ?case by blast
qed

subsection \<open>Unfolding the samples\<close>

lemmas sample_defs = provider_up_def provider_down_def disk_full_def read_fails_def
  encoder_fails_def empty_db_def alice_def alice_code_def init_def

lemmas eval_defs = sample_defs send_otp_def verify_otp_def export_leads_def Let_def
  db_run_insert_def db_all_def plus_digits_def nonDigit_def isDigit_def session_def
  json_to_sheet_def row_cells_def

section \<open>Verification of a pending session\<close>

text \<open>
  Claim C1. For a phone whose normalised form has a session that is not yet verified,
  \<^verbatim>\<open>verify-otp\<close> with a code for which the provider answers \<^verbatim>\<open>approved\<close> responds
  with success (status 200) and sets the \<^verbatim>\<open>verified\<close> flag of that session, leaving
  every other session as it was; with a code for which the provider answers any other
  status it responds 400 \<^verbatim>\<open>Invalid OTP\<close> and leaves the session map unchanged, so
  the session is still pending.
\<close>

theorem verify_otp_pending_session:
  assumes "p \<noteq> []" and "truthy otp"
    and "leads s (plus_digits p) = Some l" and "\<not> verified l"
  shows "(verificationChecks_create e (plus_digits p) otp = Inr ''approved'' \<longrightarrow>
            fst (verify_otp e (JStr p) otp s) = Sent (Json 200 True None) \<and>
            leads (snd (verify_otp e (JStr p) otp s)) =
              (leads s)(plus_digits p \<mapsto> l\<lparr>verified := True\<rparr>) \<and>
            session (snd (verify_otp e (JStr p) otp s)) (plus_digits p) = VERIFIED) \<and>
         (\<forall>st. verificationChecks_create e (plus_digits p) otp = Inr st \<and> st \<noteq> ''approved'' \<longrightarrow>
            fst (verify_otp e (JStr p) otp s) = Sent (Json 400 False (Some ''Invalid OTP'')) \<and>
            leads (snd (verify_otp e (JStr p) otp s)) = leads s \<and>
            session (snd (verify_otp e (JStr p) otp s)) (plus_digits p) = PENDING)"
  using assms by (simp add: fst_verify_otp leads_verify_otp session_def)

theorem verify_otp_pending_session_witness:
  "fst (verify_otp provider_up (JStr ''+1 (555) 111-2222'') (JStr ''123456'')
          (run (init empty_db) [alice])) = Sent (Json 200 True None) \<and>
   leads (snd (verify_otp provider_up (JStr ''+1 (555) 111-2222'') (JStr ''123456'')
          (run (init empty_db) [alice]))) ''+15551112222'' =
     Some \<lparr>name = JStr ''Alice'', phone = ''+15551112222'', verified = True\<rparr> \<and>
   fst (verify_otp provider_up (JStr ''+1 (555) 111-2222'') (JStr ''000000'')
          (run (init empty_db) [alice])) = Sent (Json 400 False (Some ''Invalid OTP'')) \<and>
   leads (snd (verify_otp provider_up (JStr ''+1 (555) 111-2222'') (JStr ''000000'')
          (run (init empty_db) [alice]))) ''+15551112222'' =
     Some \<lparr>name = JStr ''Alice'', phone = ''+15551112222'', verified = False\<rparr>"
proof -
  let ?s = "run (init empty_db) [alice]"
  let ?l = "\<lparr>name = JStr ''Alice'', phone = ''+15551112222'', verified = False\<rparr>"
  have k: "plus_digits ''+1 (555) 111-2222'' = ''+15551112222''"
    by (simp add: plus_digits_def isDigit_def)
  have l: "leads ?s (plus_digits ''+1 (555) 111-2222'') = Some ?l"
    by (simp add: sample_defs send_otp_def Let_def db_run_insert_def plus_digits_def
          nonDigit_def isDigit_def)
  have ok: "verificationChecks_create provider_up (plus_digits ''+1 (555) 111-2222'')
              (JStr ''123456'') = Inr ''approved''"
    by (simp add: provider_up_def)
  have no: "verificationChecks_create provider_up (plus_digits ''+1 (555) 111-2222'')
              (JStr ''000000'') = Inr ''pending''"
    by (simp add: provider_up_def)
  from verify_otp_pending_session [of "''+1 (555) 111-2222''" "JStr ''123456''" ?s ?l provider_up]
       verify_otp_pending_session [of "''+1 (555) 111-2222''" "JStr ''000000''" ?s ?l provider_up]
       l ok no
  show ?thesis by (simp add: k)
qed

section \<open>The session of a phone number along a run\<close>

text \<open>
  The first, the second and the third request of this run are a submission for
  \<^verbatim>\<open>+15551112222\<close>, its verification with the approved code, and a second submission
  for the same number: the session is \<open>VERIFIED\<close> after the second request and
  \<open>PENDING\<close> again after the third, since line 57 stores \<^verbatim>\<open>verified: false\<close>
  whatever the entry was. So claim C2 does not hold as it is stated.
\<close>

theorem resubmission_resets_verified_session:
  "session (run (init empty_db) [alice, alice_code]) ''+15551112222'' = VERIFIED \<and>
   session (run (init empty_db) [alice, alice_code, alice]) ''+15551112222'' = PENDING"
  by (simp add: eval_defs)

text \<open>
  Claim C2, amended. A session that exists never disappears (no request returns it to
  \<open>NONE\<close>); a \<open>VERIFIED\<close> session stays \<open>VERIFIED\<close> along every sequence of
  requests none of which is a submission for its phone number that passes the
  validation (verifications, exports, submissions for other numbers and rejected
  submissions); and a submission for the number that passes the validation sets the
  session to \<open>PENDING\<close>, whatever it was.
\<close>

theorem session_moves_forward:
  "(session s k \<noteq> NONE \<longrightarrow> session (run s rs) k \<noteq> NONE) \<and>
   (session s k = VERIFIED \<and> (\<forall>r\<in>set rs. \<not> submits k r) \<longrightarrow>
      session (run s rs) k = VERIFIED) \<and>
   (submits k q \<longrightarrow> session (snd (handle q t)) k = PENDING)"
  by (simp add: session_run_not_NONE session_run_VERIFIED)
     (simp add: session_def leads_handle_submits)

theorem session_moves_forward_witness:
  "session (run (init empty_db) [alice, alice_code]) ''+15551112222'' = VERIFIED \<and>
   session (run (run (init empty_db) [alice, alice_code])
       [alice_code, ExportLeads provider_up,
        SendOtp provider_up (JStr ''Bob'') (JStr ''555-000'') JNull,
        SendOtp provider_up JUndefined (JStr ''+1 555 111 2222'') JNull])
     ''+15551112222'' = VERIFIED \<and>
   session (snd (handle alice (run (init empty_db) [alice, alice_code]))) ''+15551112222'' = PENDING"
proof -
  let ?s = "run (init empty_db) [alice, alice_code]"
  let ?rs = "[alice_code, ExportLeads provider_up,
        SendOtp provider_up (JStr ''Bob'') (JStr ''555-000'') JNull,
        SendOtp provider_up JUndefined (JStr ''+1 555 111 2222'') JNull]"
  have v: "session ?s ''+15551112222'' = VERIFIED"
    by (simp add: eval_defs)
  have n: "\<forall>r\<in>set ?rs. \<not> submits ''+15551112222'' r"
    by (simp add: alice_code_def plus_digits_def isDigit_def)
  have a: "submits ''+15551112222'' alice"
    by (simp add: alice_def plus_digits_def isDigit_def)
  from session_moves_forward [of ?s "''+15551112222''" ?rs alice ?s] v n a
  show ?thesis by simp
qed

section \<open>Normalisation in both handlers\<close>

text \<open>
  Claim C3. For a phone that is a non-empty string, both handlers use the string
  made of \<^verbatim>\<open>+\<close> and the digit characters of the input, in their order: it is the
  key and the \<^verbatim>\<open>phone\<close> of the session that \<^verbatim>\<open>send-otp\<close> stores, the phone bound to
  the \<^verbatim>\<open>INSERT\<close>, and the number given to the provider by \<^verbatim>\<open>send-otp\<close> and by
  \<^verbatim>\<open>verify-otp\<close>. Hence two inputs with the same digits are normalised to the same
  value, in either handler.
\<close>

theorem phone_normalisation:
  assumes "p \<noteq> []" and "truthy nm" and "truthy otp"
  shows "leads (snd (send_otp e nm (JStr p) cc s)) (CHR ''+'' # filter isDigit p) =
           Some \<lparr>name = nm, phone = CHR ''+'' # filter isDigit p, verified = False\<rparr> \<and>
         calls (snd (send_otp e nm (JStr p) cc s)) =
           calls s @ [DbRun nm (CHR ''+'' # filter isDigit p) (if truthy cc then cc else JNull),
                      VerificationsCreate (CHR ''+'' # filter isDigit p) ''sms''] \<and>
         calls (snd (verify_otp e' (JStr p) otp s')) =
           calls s' @ [VerificationChecksCreate (CHR ''+'' # filter isDigit p) otp] \<and>
         (\<forall>q. q \<noteq> [] \<and> filter isDigit q = filter isDigit p \<longrightarrow>
            leads (snd (send_otp e nm (JStr q) cc s)) = leads (snd (send_otp e nm (JStr p) cc s)) \<and>
            calls (snd (send_otp e nm (JStr q) cc s)) = calls (snd (send_otp e nm (JStr p) cc s)) \<and>
            calls (snd (verify_otp e' (JStr q) otp s')) = calls (snd (verify_otp e' (JStr p) otp s')))"
proof -
  have same: "leads (snd (send_otp e nm (JStr q) cc s)) = leads (snd (send_otp e nm (JStr p) cc s)) \<and>
      calls (snd (send_otp e nm (JStr q) cc s)) = calls (snd (send_otp e nm (JStr p) cc s)) \<and>
      calls (snd (verify_otp e' (JStr q) otp s')) = calls (snd (verify_otp e' (JStr p) otp s'))"
    if q: "q \<noteq> []" "filter isDigit q = filter isDigit p" for q
  proof -
    from q(2) have "plus_digits q = plus_digits p"
      unfolding plus_digits_def by (rule arg_cong)
    with q(1) assms show ?thesis
      by (simp only: leads_send_otp calls_send_otp calls_verify_otp simp_thms)
  qed
  have here: "leads (snd (send_otp e nm (JStr p) cc s)) (plus_digits p) =
           Some \<lparr>name = nm, phone = plus_digits p, verified = False\<rparr> \<and>
         calls (snd (send_otp e nm (JStr p) cc s)) =
           calls s @ [DbRun nm (plus_digits p) (if truthy cc then cc else JNull),
                      VerificationsCreate (plus_digits p) ''sms''] \<and>
         calls (snd (verify_otp e' (JStr p) otp s')) =
           calls s' @ [VerificationChecksCreate (plus_digits p) otp]"
    using assms by (simp add: leads_send_otp calls_send_otp calls_verify_otp)
  from here same show ?thesis
    unfolding plus_digits_def by blast
qed

theorem phone_normalisation_witness:
  "leads (snd (send_otp provider_up (JStr ''Alice'') (JStr ''(555) 123-4567'') JNull (init empty_db)))
     ''+5551234567'' =
     Some \<lparr>name = JStr ''Alice'', phone = ''+5551234567'', verified = False\<rparr> \<and>
   calls (snd (send_otp provider_up (JStr ''Alice'') (JStr ''(555) 123-4567'') JNull (init empty_db))) =
     [DbRun (JStr ''Alice'') ''+5551234567'' JNull, VerificationsCreate ''+5551234567'' ''sms''] \<and>
   calls (snd (verify_otp provider_up (JStr ''(555) 123-4567'') (JStr ''123456'') (init empty_db))) =
     [VerificationChecksCreate ''+5551234567'' (JStr ''123456'')] \<and>
   calls (snd (send_otp provider_up (JStr ''Alice'') (JStr ''555-123-4567'') JNull (init empty_db))) =
     calls (snd (send_otp provider_up (JStr ''Alice'') (JStr ''(555) 123-4567'') JNull (init empty_db)))"
proof -
  have d: "filter isDigit ''(555) 123-4567'' = ''5551234567''"
    by (simp add: isDigit_def)
  have d': "filter isDigit ''555-123-4567'' = ''5551234567''"
    by (simp add: isDigit_def)
  have h: "''(555) 123-4567'' \<noteq> []" "truthy (JStr ''Alice'')" "truthy (JStr ''123456'')"
    by simp_all
  note n = phone_normalisation [OF h, of provider_up JNull "init empty_db" provider_up
      "init empty_db", unfolded d]
  have c: "calls (init empty_db) = []"
    by (simp add: init_def)
  from n have "''555-123-4567'' \<noteq> [] \<and> filter isDigit ''555-123-4567'' = ''5551234567'' \<longrightarrow>
      calls (snd (send_otp provider_up (JStr ''Alice'') (JStr ''555-123-4567'') JNull (init empty_db))) =
      calls (snd (send_otp provider_up (JStr ''Alice'') (JStr ''(555) 123-4567'') JNull (init empty_db)))"
    by blast
  with d' have q: "calls (snd (send_otp provider_up (JStr ''Alice'') (JStr ''555-123-4567'') JNull (init empty_db))) =
      calls (snd (send_otp provider_up (JStr ''Alice'') (JStr ''(555) 123-4567'') JNull (init empty_db)))"
    by simp
  from n c q show ?thesis by simp
qed

section \<open>The export\<close>

text \<open>
  With an empty table whose \<^verbatim>\<open>SELECT\<close> fails, the export answers 500
  \<^verbatim>\<open>Error fetching leads\<close>, not 400; with one stored row and an encoder that throws,
  it answers 500 \<^verbatim>\<open>Error exporting leads\<close> and sends no document (lines 132 to 135
  and 167 to 170). So claim C4 does not hold as it is stated.
\<close>

theorem export_fails_on_collaborator_error:
  "leads_table (db (init empty_db)) = [] \<and>
   fst (export_leads read_fails (init empty_db)) =
     Sent (Json 500 False (Some ''Error fetching leads'')) \<and>
   leads_table (db (run (init empty_db) [alice])) \<noteq> [] \<and>
   fst (export_leads encoder_fails (run (init empty_db) [alice])) =
     Sent (Json 500 False (Some ''Error exporting leads''))"
  by (simp add: eval_defs)

text \<open>
  Claim C4, amended. When the table can be read: the export of an empty table answers
  400 \<^verbatim>\<open>No leads to export\<close> and sends no document; the export of a table that is
  not empty, when the encoder does not throw, sends a workbook whose one sheet
  \<^verbatim>\<open>Leads\<close> has the columns id, name, phone, catalog_code, created_at and exactly
  one row for each stored record, in the order of the table. A failed read answers 500
  \<^verbatim>\<open>Error fetching leads\<close>, and an exception of the encoder 500
  \<^verbatim>\<open>Error exporting leads\<close>.
\<close>

theorem export_leads_document:
  "(db_all_error e = None \<and> leads_table (db s) = [] \<longrightarrow>
      fst (export_leads e s) = Sent (Json 400 False (Some ''No leads to export''))) \<and>
   (db_all_error e = None \<and> leads_table (db s) \<noteq> [] \<and> xlsx_error e = None \<longrightarrow>
      fst (export_leads e s) =
        Sent (Attachment (''leads_'' @ iso_date e @ ''.xlsx'')
          [(''Leads'',
            \<lparr>header = [''id'', ''name'', ''phone'', ''catalog_code'', ''created_at''],
             body = map row_cells (leads_table (db s)),
             cols = [5, 20, 15, 20, 20]\<rparr>)])) \<and>
   (\<forall>m. db_all_error e = Some m \<longrightarrow>
      fst (export_leads e s) = Sent (Json 500 False (Some ''Error fetching leads''))) \<and>
   (\<forall>m. db_all_error e = None \<and> leads_table (db s) \<noteq> [] \<and> xlsx_error e = Some m \<longrightarrow>
      fst (export_leads e s) = Sent (Json 500 False (Some ''Error exporting leads'')))"
  by (simp add: export_leads_def db_all_def json_to_sheet_def Let_def)

theorem export_leads_document_witness:
  "fst (export_leads provider_up (init empty_db)) =
     Sent (Json 400 False (Some ''No leads to export'')) \<and>
   fst (export_leads provider_up (run (init empty_db) [alice, alice])) =
     Sent (Attachment ''leads_2024-05-01.xlsx''
       [(''Leads'',
         \<lparr>header = [''id'', ''name'', ''phone'', ''catalog_code'', ''created_at''],
          body = [[JNum 1, JStr ''Alice'', JStr ''+15551112222'', JNull, JStr ''2024-05-01 10:00:00''],
                  [JNum 2, JStr ''Alice'', JStr ''+15551112222'', JNull, JStr ''2024-05-01 10:00:00'']],
          cols = [5, 20, 15, 20, 20]\<rparr>)]) \<and>
   fst (export_leads read_fails (init empty_db)) =
     Sent (Json 500 False (Some ''Error fetching leads'')) \<and>
   fst (export_leads encoder_fails (run (init empty_db) [alice])) =
     Sent (Json 500 False (Some ''Error exporting leads''))"
proof -
  have t0: "leads_table (db (init empty_db)) = []"
    by (simp add: init_def empty_db_def)
  have t1: "leads_table (db (run (init empty_db) [alice])) =
      [\<lparr>row_id = 1, row_name = JStr ''Alice'', row_phone = ''+15551112222'',
        catalog_code = JNull, created_at = ''2024-05-01 10:00:00''\<rparr>]"
    by (simp add: eval_defs)
  have t2: "leads_table (db (run (init empty_db) [alice, alice])) =
      [\<lparr>row_id = 1, row_name = JStr ''Alice'', row_phone = ''+15551112222'',
        catalog_code = JNull, created_at = ''2024-05-01 10:00:00''\<rparr>,
       \<lparr>row_id = 2, row_name = JStr ''Alice'', row_phone = ''+15551112222'',
        catalog_code = JNull, created_at = ''2024-05-01 10:00:00''\<rparr>]"
    by (simp add: eval_defs)
  have e: "db_all_error provider_up = None" "xlsx_error provider_up = None"
      "iso_date provider_up = ''2024-05-01''"
      "db_all_error read_fails = Some ''SQLITE_IOERR: disk I/O error''"
      "db_all_error encoder_fails = None"
      "xlsx_error encoder_fails = Some ''serialization failure''"
    by (simp_all add: provider_up_def read_fails_def encoder_fails_def)
  from export_leads_document [of provider_up "init empty_db"]
       export_leads_document [of provider_up "run (init empty_db) [alice, alice]"]
       export_leads_document [of read_fails "init empty_db"]
       export_leads_document [of encoder_fails "run (init empty_db) [alice]"]
       t0 t1 t2 e
  show ?thesis by (simp add: row_cells_def)
qed

section \<open>Submissions\<close>

text \<open>
  Claim C5. When \<^verbatim>\<open>name\<close> or \<^verbatim>\<open>phone\<close> is missing or empty (any falsy value),
  \<^verbatim>\<open>send-otp\<close> answers 400 \<^verbatim>\<open>Name and phone are required\<close> and the state is the
  one before the request: no call to the database or to the provider was made, and
  the session map and the table are unchanged.
\<close>

theorem send_otp_validation:
  assumes "\<not> truthy nm \<or> \<not> truthy ph"
  shows "fst (send_otp e nm ph cc s) = Sent (Json 400 False (Some ''Name and phone are required'')) \<and>
         snd (send_otp e nm ph cc s) = s \<and>
         calls (snd (send_otp e nm ph cc s)) = calls s \<and>
         leads (snd (send_otp e nm ph cc s)) = leads s \<and>
         leads_table (db (snd (send_otp e nm ph cc s))) = leads_table (db s)"
  using assms by (simp add: send_otp_def)

theorem send_otp_validation_witness:
  "fst (send_otp provider_up (JStr []) (JStr ''+1 555 111 2222'') JNull (init empty_db)) =
     Sent (Json 400 False (Some ''Name and phone are required'')) \<and>
   snd (send_otp provider_up (JStr []) (JStr ''+1 555 111 2222'') JNull (init empty_db)) = init empty_db \<and>
   fst (send_otp provider_up (JStr ''Alice'') JUndefined JNull (init empty_db)) =
     Sent (Json 400 False (Some ''Name and phone are required'')) \<and>
   snd (send_otp provider_up (JStr ''Alice'') JUndefined JNull (init empty_db)) = init empty_db"
  using send_otp_validation [of "JStr []" "JStr ''+1 555 111 2222''" provider_up JNull "init empty_db"]
        send_otp_validation [of "JStr ''Alice''" JUndefined provider_up JNull "init empty_db"]
  by simp

text \<open>
  Claim C6. For a submission with a name and a non-empty phone string, whatever the
  database reports for the \<^verbatim>\<open>INSERT\<close> (\<open>err\<close> is \<open>None\<close> when it ran, an error
  otherwise): the provider is asked to send the code right after the insert was
  issued, the response does not depend on what the database reported, and it is the
  success response whenever the provider accepts the request.
\<close>

theorem insert_failure_not_fatal:
  assumes "truthy nm" and "p \<noteq> []"
  shows "calls (snd (send_otp (e\<lparr>db_run_error := err\<rparr>) nm (JStr p) cc s)) =
           calls s @ [DbRun nm (plus_digits p) (if truthy cc then cc else JNull),
                      VerificationsCreate (plus_digits p) ''sms''] \<and>
         fst (send_otp (e\<lparr>db_run_error := err\<rparr>) nm (JStr p) cc s) = fst (send_otp e nm (JStr p) cc s) \<and>
         (\<forall>sid. verifications_create e (plus_digits p) ''sms'' = Inr sid \<longrightarrow>
            fst (send_otp (e\<lparr>db_run_error := err\<rparr>) nm (JStr p) cc s) = Sent (Json 200 True None))"
  using assms by (simp add: calls_send_otp fst_send_otp)

theorem insert_failure_not_fatal_witness:
  "calls (snd (send_otp disk_full (JStr ''Alice'') (JStr ''+1 555 111 2222'') JNull (init empty_db))) =
     [DbRun (JStr ''Alice'') ''+15551112222'' JNull, VerificationsCreate ''+15551112222'' ''sms''] \<and>
   fst (send_otp disk_full (JStr ''Alice'') (JStr ''+1 555 111 2222'') JNull (init empty_db)) =
     Sent (Json 200 True None) \<and>
   leads_table (db (snd (send_otp disk_full (JStr ''Alice'') (JStr ''+1 555 111 2222'') JNull (init empty_db)))) = []"
proof -
  let ?e = "provider_up\<lparr>db_run_error := Some ''SQLITE_FULL: database or disk is full''\<rparr>"
  have k: "plus_digits ''+1 555 111 2222'' = ''+15551112222''"
    by (simp add: plus_digits_def isDigit_def)
  have t: "leads_table (db (snd (send_otp ?e (JStr ''Alice'') (JStr ''+1 555 111 2222'') JNull (init empty_db)))) = []"
    by (simp add: db_send_otp db_run_insert_def init_def empty_db_def)
  have v: "verifications_create provider_up ''+15551112222'' ''sms'' = Inr ''VE01''"
    by (simp add: provider_up_def)
  have c: "calls (init empty_db) = []"
    by (simp add: init_def)
  have h: "truthy (JStr ''Alice'')" "''+1 555 111 2222'' \<noteq> []"
    by simp_all
  note n = insert_failure_not_fatal [OF h, where e = provider_up
      and err = "Some ''SQLITE_FULL: database or disk is full''"
      and cc = JNull and s = "init empty_db", unfolded k]
  from n v have "fst (send_otp ?e (JStr ''Alice'') (JStr ''+1 555 111 2222'') JNull (init empty_db)) =
      Sent (Json 200 True None)"
    by blast
  with n t c show ?thesis
    unfolding disk_full_def by simp
qed

text \<open>
  Claim C7. When the provider rejects the request to send a code, \<^verbatim>\<open>send-otp\<close>
  answers 500 \<^verbatim>\<open>Failed to send OTP\<close>, and the session written earlier in the same
  request is still there as it was written: name, normalised phone, not verified.
\<close>

theorem provider_error_keeps_pending:
  assumes "truthy nm" and "p \<noteq> []"
    and "verifications_create e (plus_digits p) ''sms'' = Inl m"
  shows "fst (send_otp e nm (JStr p) cc s) = Sent (Json 500 False (Some ''Failed to send OTP'')) \<and>
         leads (snd (send_otp e nm (JStr p) cc s)) (plus_digits p) =
           Some \<lparr>name = nm, phone = plus_digits p, verified = False\<rparr> \<and>
         session (snd (send_otp e nm (JStr p) cc s)) (plus_digits p) = PENDING"
  using assms by (simp add: fst_send_otp leads_send_otp session_def)

theorem provider_error_keeps_pending_witness:
  "fst (send_otp provider_down (JStr ''Alice'') (JStr ''+1 555 111 2222'') JNull (init empty_db)) =
     Sent (Json 500 False (Some ''Failed to send OTP'')) \<and>
   leads (snd (send_otp provider_down (JStr ''Alice'') (JStr ''+1 555 111 2222'') JNull (init empty_db)))
     ''+15551112222'' = Some \<lparr>name = JStr ''Alice'', phone = ''+15551112222'', verified = False\<rparr> \<and>
   session (snd (send_otp provider_down (JStr ''Alice'') (JStr ''+1 555 111 2222'') JNull (init empty_db)))
     ''+15551112222'' = PENDING"
proof -
  have k: "plus_digits ''+1 555 111 2222'' = ''+15551112222''"
    by (simp add: plus_digits_def isDigit_def)
  have d: "verifications_create provider_down (plus_digits ''+1 555 111 2222'') ''sms'' = Inl ''connect ETIMEDOUT''"
    by (simp add: provider_down_def provider_up_def)
  from provider_error_keeps_pending [of "JStr ''Alice''" "''+1 555 111 2222''" provider_down
         "''connect ETIMEDOUT''" JNull "init empty_db"] d k
  show ?thesis by simp
qed

section \<open>The rows of the lead store\<close>

text \<open>
  A submission with a name and a phone whose \<^verbatim>\<open>INSERT\<close> the database fails, while
  the provider accepts the request, is answered with success and leaves the table as
  it was (the callback of lines 63 to 69 only logs the error): not every submission
  produces a row. So claim C8 does not hold as it is stated.
\<close>

theorem failed_insert_adds_no_row:
  "fst (send_otp disk_full (JStr ''Alice'') (JStr ''+1 555 111 2222'') JUndefined (init empty_db)) =
     Sent (Json 200 True None) \<and>
   leads_table (db (snd (send_otp disk_full (JStr ''Alice'') (JStr ''+1 555 111 2222'') JUndefined
     (init empty_db)))) = leads_table (db (init empty_db))"
  by (simp add: eval_defs)

text \<open>
  Claim C8, amended. Along every sequence of requests the table only grows at its
  end (no row is changed or removed), and every row added has a truthy (for a string:
  non-empty) name and a phone in normal form. A submission with a name and a non-empty
  phone string whose \<^verbatim>\<open>INSERT\<close> the database runs appends one new row, whatever rows
  the table holds already, also rows with the same phone; when the database fails the
  \<^verbatim>\<open>INSERT\<close>, the table is unchanged, and the response is the one that the
  provider's answer decides: success when the provider accepts the request, 500
  \<^verbatim>\<open>Failed to send OTP\<close> when it rejects it.
\<close>

theorem lead_store_append_only:
  "(\<exists>new. leads_table (db (run s rs)) = leads_table (db s) @ new \<and>
      (\<forall>r\<in>set new. truthy (row_name r) \<and> normal_form (row_phone r))) \<and>
   (truthy nm \<and> p \<noteq> [] \<and> db_run_error e = None \<longrightarrow>
      leads_table (db (snd (send_otp e nm (JStr p) cc s))) =
        leads_table (db s) @
          [\<lparr>row_id = Suc (sqlite_sequence (db s)), row_name = nm, row_phone = plus_digits p,
            catalog_code = (if truthy cc then cc else JNull),
            created_at = current_timestamp e\<rparr>]) \<and>
   (\<forall>m. truthy nm \<and> p \<noteq> [] \<and> db_run_error e = Some m \<longrightarrow>
      leads_table (db (snd (send_otp e nm (JStr p) cc s))) = leads_table (db s) \<and>
      fst (send_otp e nm (JStr p) cc s) =
        (case verifications_create e (plus_digits p) ''sms'' of
           Inr sid \<Rightarrow> Sent (Json 200 True None)
         | Inl x \<Rightarrow> Sent (Json 500 False (Some ''Failed to send OTP''))))"
proof -
  have "\<exists>new. leads_table (db (run s rs)) = leads_table (db s) @ new \<and>
      (\<forall>r\<in>set new. truthy (row_name r) \<and> normal_form (row_phone r))"
    using table_run [of s rs] by (simp add: list_all_iff stored_ok_def)
  moreover have "truthy nm \<and> p \<noteq> [] \<and> db_run_error e = None \<longrightarrow>
      leads_table (db (snd (send_otp e nm (JStr p) cc s))) =
        leads_table (db s) @
          [\<lparr>row_id = Suc (sqlite_sequence (db s)), row_name = nm, row_phone = plus_digits p,
            catalog_code = (if truthy cc then cc else JNull),
            created_at = current_timestamp e\<rparr>]"
    by (cases nm) (simp_all add: db_send_otp db_run_insert_def)
  moreover have "\<forall>m. truthy nm \<and> p \<noteq> [] \<and> db_run_error e = Some m \<longrightarrow>
      leads_table (db (snd (send_otp e nm (JStr p) cc s))) = leads_table (db s) \<and>
      fst (send_otp e nm (JStr p) cc s) =
        (case verifications_create e (plus_digits p) ''sms'' of
           Inr sid \<Rightarrow> Sent (Json 200 True None)
         | Inl x \<Rightarrow> Sent (Json 500 False (Some ''Failed to send OTP'')))"
    by (simp add: db_send_otp db_run_insert_def fst_send_otp)
  ultimately show ?thesis by blast
qed

theorem lead_store_append_only_witness:
  "leads_table (db (snd (send_otp provider_up (JStr ''Alice'') (JStr ''+1 (555) 111-2222'') JUndefined
      (run (init empty_db) [alice])))) =
     [\<lparr>row_id = 1, row_name = JStr ''Alice'', row_phone = ''+15551112222'',
       catalog_code = JNull, created_at = ''2024-05-01 10:00:00''\<rparr>,
      \<lparr>row_id = 2, row_name = JStr ''Alice'', row_phone = ''+15551112222'',
       catalog_code = JNull, created_at = ''2024-05-01 10:00:00''\<rparr>] \<and>
   leads_table (db (snd (send_otp disk_full (JStr ''Alice'') (JStr ''+1 555 111 2222'') JUndefined
      (run (init empty_db) [alice])))) = leads_table (db (run (init empty_db) [alice])) \<and>
   fst (send_otp disk_full (JStr ''Alice'') (JStr ''+1 555 111 2222'') JUndefined
      (run (init empty_db) [alice])) = Sent (Json 200 True None) \<and>
   fst (send_otp (disk_full\<lparr>verifications_create := (\<lambda>to channel. Inl ''connect ETIMEDOUT'')\<rparr>)
      (JStr ''Alice'') (JStr ''+1 555 111 2222'') JUndefined (run (init empty_db) [alice])) =
     Sent (Json 500 False (Some ''Failed to send OTP'')) \<and>
   (\<exists>new. leads_table (db (run (run (init empty_db) [alice]) [alice_code, alice])) =
      leads_table (db (run (init empty_db) [alice])) @ new \<and> list_all stored_ok new)"
proof -
  let ?s = "run (init empty_db) [alice]"
  have t1: "leads_table (db ?s) =
      [\<lparr>row_id = 1, row_name = JStr ''Alice'', row_phone = ''+15551112222'',
        catalog_code = JNull, created_at = ''2024-05-01 10:00:00''\<rparr>]"
      "sqlite_sequence (db ?s) = 1"
    by (simp_all add: eval_defs)
  let ?down = "disk_full\<lparr>verifications_create := (\<lambda>to channel. Inl ''connect ETIMEDOUT'')\<rparr>"
  have e: "db_run_error provider_up = None" "current_timestamp provider_up = ''2024-05-01 10:00:00''"
      "db_run_error disk_full = Some ''SQLITE_FULL: database or disk is full''"
      "verifications_create disk_full ''+15551112222'' ''sms'' = Inr ''VE01''"
      "db_run_error ?down = Some ''SQLITE_FULL: database or disk is full''"
      "verifications_create ?down ''+15551112222'' ''sms'' = Inl ''connect ETIMEDOUT''"
    by (simp_all add: provider_up_def disk_full_def)
  have k: "plus_digits ''+1 (555) 111-2222'' = ''+15551112222''"
      "plus_digits ''+1 555 111 2222'' = ''+15551112222''"
    by (simp_all add: plus_digits_def isDigit_def)
  have h: "truthy (JStr ''Alice'')" "''+1 555 111 2222'' \<noteq> []" "''+1 (555) 111-2222'' \<noteq> []"
    by simp_all
  note up = lead_store_append_only [where s = ?s and rs = "[alice_code, alice]"
      and nm = "JStr ''Alice''" and p = "''+1 (555) 111-2222''" and e = provider_up
      and cc = JUndefined, unfolded k]
  note full = lead_store_append_only [where s = ?s and rs = "[]"
      and nm = "JStr ''Alice''" and p = "''+1 555 111 2222''" and e = disk_full
      and cc = JUndefined, unfolded k]
  note down = lead_store_append_only [where s = ?s and rs = "[]"
      and nm = "JStr ''Alice''" and p = "''+1 555 111 2222''" and e = ?down
      and cc = JUndefined, unfolded k]
  from up h e t1 have a: "leads_table (db (snd (send_otp provider_up (JStr ''Alice'')
      (JStr ''+1 (555) 111-2222'') JUndefined ?s))) =
     [\<lparr>row_id = 1, row_name = JStr ''Alice'', row_phone = ''+15551112222'',
       catalog_code = JNull, created_at = ''2024-05-01 10:00:00''\<rparr>,
      \<lparr>row_id = 2, row_name = JStr ''Alice'', row_phone = ''+15551112222'',
       catalog_code = JNull, created_at = ''2024-05-01 10:00:00''\<rparr>]"
    by simp
  from up have b: "\<exists>new. leads_table (db (run ?s [alice_code, alice])) =
      leads_table (db ?s) @ new \<and> list_all stored_ok new"
    by (simp add: list_all_iff stored_ok_def)
  from full h e have c: "leads_table (db (snd (send_otp disk_full (JStr ''Alice'')
      (JStr ''+1 555 111 2222'') JUndefined ?s))) = leads_table (db ?s) \<and>
      fst (send_otp disk_full (JStr ''Alice'') (JStr ''+1 555 111 2222'') JUndefined ?s) =
        Sent (Json 200 True None)"
    by simp
  from down h e have d: "fst (send_otp ?down (JStr ''Alice'') (JStr ''+1 555 111 2222'')
      JUndefined ?s) = Sent (Json 500 False (Some ''Failed to send OTP''))"
    by simp
  from a b c d show ?thesis by blast
qed

section \<open>Verification without a session\<close>

text \<open>
  Claim C9. After any sequence of requests since the start of the process none of
  which is a submission for the phone that passes the validation, the phone has no
  session; \<^verbatim>\<open>verify-otp\<close> for it still asks the provider to check the code, leaves
  the session map as it is (no session is created, nothing is marked verified), and
  answers success when the provider approves.
\<close>

theorem verify_without_submission:
  assumes "p \<noteq> []" and "truthy otp"
    and "\<forall>r\<in>set rs. \<not> submits (plus_digits p) r"
  shows "leads (run (init d) rs) (plus_digits p) = None \<and>
         calls (snd (verify_otp e (JStr p) otp (run (init d) rs))) =
           calls (run (init d) rs) @ [VerificationChecksCreate (plus_digits p) otp] \<and>
         leads (snd (verify_otp e (JStr p) otp (run (init d) rs))) = leads (run (init d) rs) \<and>
         (verificationChecks_create e (plus_digits p) otp = Inr ''approved'' \<longrightarrow>
            fst (verify_otp e (JStr p) otp (run (init d) rs)) = Sent (Json 200 True None))"
proof -
  have "leads (init d) (plus_digits p) = None"
    by (simp add: init_def)
  from this assms(3) have none: "leads (run (init d) rs) (plus_digits p) = None"
    by (rule leads_run_None)
  with assms(1,2) show ?thesis
    by (simp add: calls_verify_otp leads_verify_otp fst_verify_otp)
qed

theorem verify_without_submission_witness:
  "leads (run (init empty_db) [SendOtp provider_up (JStr ''Bob'') (JStr ''555-000'') JNull])
     ''+15551112222'' = None \<and>
   calls (snd (verify_otp provider_up (JStr ''+1 555 111 2222'') (JStr ''123456'')
     (run (init empty_db) [SendOtp provider_up (JStr ''Bob'') (JStr ''555-000'') JNull]))) =
     [DbRun (JStr ''Bob'') ''+555000'' JNull, VerificationsCreate ''+555000'' ''sms'',
      VerificationChecksCreate ''+15551112222'' (JStr ''123456'')] \<and>
   leads (snd (verify_otp provider_up (JStr ''+1 555 111 2222'') (JStr ''123456'')
     (run (init empty_db) [SendOtp provider_up (JStr ''Bob'') (JStr ''555-000'') JNull]))) =
     leads (run (init empty_db) [SendOtp provider_up (JStr ''Bob'') (JStr ''555-000'') JNull]) \<and>
   fst (verify_otp provider_up (JStr ''+1 555 111 2222'') (JStr ''123456'')
     (run (init empty_db) [SendOtp provider_up (JStr ''Bob'') (JStr ''555-000'') JNull])) =
     Sent (Json 200 True None)"
proof -
  let ?rs = "[SendOtp provider_up (JStr ''Bob'') (JStr ''555-000'') JNull]"
  have k: "plus_digits ''+1 555 111 2222'' = ''+15551112222''"
    by (simp add: plus_digits_def isDigit_def)
  have n: "\<forall>r\<in>set ?rs. \<not> submits (plus_digits ''+1 555 111 2222'') r"
    by (simp add: plus_digits_def isDigit_def)
  have a: "verificationChecks_create provider_up ''+15551112222'' (JStr ''123456'') = Inr ''approved''"
    by (simp add: provider_up_def)
  have c: "calls (run (init empty_db) ?rs) =
      [DbRun (JStr ''Bob'') ''+555000'' JNull, VerificationsCreate ''+555000'' ''sms'']"
    by (simp add: eval_defs)
  have h: "''+1 555 111 2222'' \<noteq> []" "truthy (JStr ''123456'')"
    by simp_all
  note v = verify_without_submission [OF h n, of empty_db provider_up, unfolded k]
  from v a c show ?thesis by simp
qed

section \<open>A phone without digits\<close>

text \<open>
  Claim C10. A submission with a name and a non-empty phone string that has no digit
  passes the validation (the response is the one that follows the provider's answer)
  and its normalised phone is the single character \<^verbatim>\<open>+\<close>: that is the key and the
  phone of the session, the phone bound to the \<^verbatim>\<open>INSERT\<close> and stored in the new row
  when the database runs it, and the number given to the provider.
\<close>

theorem digitless_phone_is_bare_plus:
  assumes "truthy nm" and "p \<noteq> []" and "\<forall>c\<in>set p. \<not> isDigit c"
  shows "fst (send_otp e nm (JStr p) cc s) =
           (case verifications_create e ''+'' ''sms'' of
              Inr sid \<Rightarrow> Sent (Json 200 True None)
            | Inl m \<Rightarrow> Sent (Json 500 False (Some ''Failed to send OTP''))) \<and>
         leads (snd (send_otp e nm (JStr p) cc s)) =
           (leads s)(''+'' \<mapsto> \<lparr>name = nm, phone = ''+'', verified = False\<rparr>) \<and>
         calls (snd (send_otp e nm (JStr p) cc s)) =
           calls s @ [DbRun nm ''+'' (if truthy cc then cc else JNull),
                      VerificationsCreate ''+'' ''sms''] \<and>
         (db_run_error e = None \<longrightarrow>
            leads_table (db (snd (send_otp e nm (JStr p) cc s))) =
              leads_table (db s) @
                [\<lparr>row_id = Suc (sqlite_sequence (db s)), row_name = nm, row_phone = ''+'',
                  catalog_code = (if truthy cc then cc else JNull),
                  created_at = current_timestamp e\<rparr>])"
proof -
  from assms(3) have "filter isDigit p = []"
    by (simp add: filter_empty_conv)
  then have k: "plus_digits p = ''+''"
    by (simp add: plus_digits_def)
  from assms(1) have nn: "nm \<noteq> JNull" "nm \<noteq> JUndefined"
    by auto
  show ?thesis
    using fst_send_otp [OF assms(1,2), of e cc s] leads_send_otp [OF assms(1,2), of e cc s]
      calls_send_otp [OF assms(1,2), of e cc s] db_send_otp [OF assms(1,2), of e cc s] nn
    by (simp add: k db_run_insert_def)
qed

theorem digitless_phone_is_bare_plus_witness:
  "fst (send_otp provider_up (JStr ''Alice'') (JStr ''n/a'') JUndefined (init empty_db)) =
     Sent (Json 200 True None) \<and>
   leads (snd (send_otp provider_up (JStr ''Alice'') (JStr ''n/a'') JUndefined (init empty_db))) ''+'' =
     Some \<lparr>name = JStr ''Alice'', phone = ''+'', verified = False\<rparr> \<and>
   calls (snd (send_otp provider_up (JStr ''Alice'') (JStr ''n/a'') JUndefined (init empty_db))) =
     [DbRun (JStr ''Alice'') ''+'' JNull, VerificationsCreate ''+'' ''sms''] \<and>
   leads_table (db (snd (send_otp provider_up (JStr ''Alice'') (JStr ''n/a'') JUndefined (init empty_db)))) =
     [\<lparr>row_id = 1, row_name = JStr ''Alice'', row_phone = ''+'', catalog_code = JNull,
       created_at = ''2024-05-01 10:00:00''\<rparr>]"
proof -
  have h: "truthy (JStr ''Alice'')" "''n/a'' \<noteq> []" "\<forall>c\<in>set ''n/a''. \<not> isDigit c"
    by (simp_all add: isDigit_def)
  have e: "verifications_create provider_up ''+'' ''sms'' = Inr ''VE01''"
      "db_run_error provider_up = None" "current_timestamp provider_up = ''2024-05-01 10:00:00''"
    by (simp_all add: provider_up_def)
  have i: "calls (init empty_db) = []" "leads_table (db (init empty_db)) = []"
      "sqlite_sequence (db (init empty_db)) = 0"
    by (simp_all add: init_def empty_db_def)
  note d = digitless_phone_is_bare_plus [OF h, of provider_up JUndefined "init empty_db"]
  from d e i show ?thesis by simp
qed

end
